theory Spec2Isabelle
  imports Main "HOL-Library.Word"
begin

section \<open>Data model (src/packages/shared/src/types.ts, first part)\<close>

type_synonym TOrigin = string
type_synonym TIdentityId = nat
type_synonym TTimestamp = int
type_synonym byte = "8 word"

record ISession =
  identityId :: TIdentityId
  deriviationOrigin :: TOrigin
  timestampMs :: TTimestamp

datatype ISiteSession =
  SiteSessionOrigin TOrigin TIdentityId
  | SiteSessionCanisterId string TIdentityId

text \<open>
  The handlers read and write the fields \<open>identitiesTotal\<close>, \<open>linksFrom\<close>, \<open>linksTo\<close> and
  \<open>currentSession\<close> of an origin's entry; the two link fields are arrays of origins
  (\<open>handleIdentityGetLinks\<close> returns \<open>linksTo\<close> as \<open>TOrigin[]\<close>, the login-options handler
  iterates \<open>linksFrom\<close> in order).
\<close>

record IOriginData =
  identitiesTotal :: TIdentityId
  linksFrom :: "TOrigin list"
  linksTo :: "TOrigin list"
  currentSession :: "ISession option"

text \<open>
  \<open>ZState\<close>: the optional site session and the record of per-origin entries
  (\<open>z.record(ZOrigin, z.optional(ZOriginData))\<close>, a partial map). The usage counter that
  \<open>incrementStats\<close> updates is kept beside them.
\<close>

record IState =
  siteSession :: "ISiteSession option"
  originData :: "TOrigin \<rightharpoonup> IOriginData"
  statistics :: "TOrigin \<Rightarrow> nat"

datatype ErrorCode = UNAUTHORIZED | INVALID_INPUT | UNREACHEABLE | PROTECTED_METHOD

record IIdentityAddRequest =
  add_toOrigin :: TOrigin

text \<open>The login handler reads \<open>toOrigin\<close>, \<open>withIdentityId\<close> and the optional
  \<open>withLinkedOrigin\<close> of its body; the client sends its derivation origin under that name.\<close>

record IIdentityLoginRequest =
  toOrigin :: TOrigin
  withIdentityId :: TIdentityId
  withLinkedOrigin :: "TOrigin option"

record IIdentityLinkRequest =
  link_withOrigin :: TOrigin

record IIdentityUnlinkRequest =
  unlink_withOrigin :: TOrigin

record IIdentityGetLoginOptionsRequest =
  forOrigin :: TOrigin

record IIdentitySignRequest =
  challenge :: "byte list"
  sign_salt :: "byte list option"

record IIdentityGetPublicKeyRequest =
  pk_salt :: "byte list option"

section \<open>Host runtime and libraries\<close>

text \<open>
  What the snap calls but does not define: the \<open>snap_getEntropy\<close> request of the host
  (a hex string with a \<open>0x\<close> prefix for a salt string), \<open>hexToBytes\<close> of the shared package,
  \<open>crypto.subtle.digest("SHA-256", _)\<close>, the operations of a \<open>Secp256k1KeyIdentity\<close>
  (its principal as text, its raw public key, its signature of a payload), the string
  that the runtime prints for a number above \<open>Number.MAX_SAFE_INTEGER\<close>, and the site
  origin that the build puts in \<open>MSQ_SNAP_SITE_ORIGIN\<close> (after \<open>JSON.parse\<close>).
  They are parameters of the model.
\<close>

record Host =
  snap_getEntropy :: "string \<Rightarrow> string"
  hexToBytes :: "string \<Rightarrow> byte list"
  sha256 :: "byte list \<Rightarrow> byte list"
  principalText :: "byte list \<Rightarrow> string"
  publicKeyRaw :: "byte list \<Rightarrow> byte list"
  signPayload :: "byte list \<Rightarrow> byte list \<Rightarrow> byte list"
  printUnsafeInteger :: "nat \<Rightarrow> string"
  MSQ_SNAP_SITE_ORIGIN :: TOrigin

text \<open>
  A \<open>Secp256k1KeyIdentity\<close> is built from its secret key and nothing else
  (\<open>Secp256k1KeyIdentity.fromSecretKey\<close>), so the identity is the wrapped secret key.
\<close>

datatype Secp256k1KeyIdentity = fromSecretKey "byte list"

fun secretKey :: "Secp256k1KeyIdentity \<Rightarrow> byte list" where
  "secretKey (fromSecretKey k) = k"

definition getPrincipalText :: "Host \<Rightarrow> Secp256k1KeyIdentity \<Rightarrow> string" where
  "getPrincipalText h identity = principalText h (secretKey identity)"

definition getPublicKeyRaw :: "Host \<Rightarrow> Secp256k1KeyIdentity \<Rightarrow> byte list" where
  "getPublicKeyRaw h identity = publicKeyRaw h (secretKey identity)"

definition sign :: "Host \<Rightarrow> Secp256k1KeyIdentity \<Rightarrow> byte list \<Rightarrow> byte list" where
  "sign h identity payload = signPayload h (secretKey identity) payload"

section \<open>Key derivation (src/packages/snap/src/protocols/icrc1.ts, second part)\<close>

definition isMasquerade :: "Host \<Rightarrow> TOrigin \<Rightarrow> bool" where
  "isMasquerade h origin = (origin = MSQ_SNAP_SITE_ORIGIN h)"

text \<open>
  \<open>`${identityId}`\<close>: for an integer up to \<open>Number.MAX_SAFE_INTEGER\<close> (\<open>2^53 - 1\<close>) the
  runtime prints its decimal digits. Above it a number is a rounded double, printed with
  the shortest digits that identify it, padded with zeros or, from \<open>10^21\<close> on, in exponent
  notation: that string is the host's \<open>printUnsafeInteger\<close>.
\<close>

definition digitChar :: "nat \<Rightarrow> char" where
  "digitChar d = char_of (48 + d)"

fun decimalDigits :: "nat \<Rightarrow> string" where
  "decimalDigits n =
     (if n < 10 then [digitChar n]
      else decimalDigits (n div 10) @ [digitChar (n mod 10)])"

declare decimalDigits.simps [simp del]

definition MAX_SAFE_INTEGER :: nat where
  "MAX_SAFE_INTEGER = 2 ^ 53 - 1"

definition numberToString :: "Host \<Rightarrow> nat \<Rightarrow> string" where
  "numberToString h n =
     (if n \<le> MAX_SAFE_INTEGER then decimalDigits n else printUnsafeInteger h n)"

definition newline :: string where
  "newline = [CHR 0x0A]"

text \<open>The salt string of the entropy request:
  \<open>`\x0amasquerade-snap\n${origin}\n${identityId}\n${internalSalt}`\<close>.\<close>

definition entropySalt :: "Host \<Rightarrow> TOrigin \<Rightarrow> TIdentityId \<Rightarrow> string \<Rightarrow> string" where
  "entropySalt h origin identityId' internalSalt =
     newline @ ''masquerade-snap'' @ newline @ origin @ newline
       @ numberToString h identityId' @ newline @ internalSalt"

definition getEntropy ::
  "Host \<Rightarrow> TOrigin \<Rightarrow> TIdentityId \<Rightarrow> string \<Rightarrow> byte list option \<Rightarrow> byte list" where
  "getEntropy h origin identityId' internalSalt customSalt =
     (let entropyPre = snap_getEntropy h (entropySalt h origin identityId' internalSalt);
          entropyPreBytes =
            (case customSalt of
               None \<Rightarrow> hexToBytes h (drop 2 entropyPre)
             | Some salt \<Rightarrow> hexToBytes h (drop 2 entropyPre) @ salt)
      in sha256 h entropyPreBytes)"

definition identitySignSalt :: string where
  "identitySignSalt = ''identity-sign'' @ newline @ ''shared''"

definition getSignIdentity ::
  "Host \<Rightarrow> TOrigin \<Rightarrow> TIdentityId \<Rightarrow> byte list option \<Rightarrow> Secp256k1KeyIdentity" where
  "getSignIdentity h origin identityId' salt =
     (let entropy = getEntropy h origin identityId' identitySignSalt salt
      in fromSecretKey entropy)"

section \<open>The persisted state and the state manager\<close>

text \<open>
  The world outside one request: the stored state blob, the number of writes made to it and
  the number of confirmation dialogs shown to the user so far.
\<close>

record World =
  blob :: IState
  writes :: nat
  dialogs :: nat

definition emptyState :: IState where
  "emptyState = \<lparr>siteSession = None, originData = Map.empty, statistics = (\<lambda>_. 0)\<rparr>"

definition freshWorld :: World where
  "freshWorld = \<lparr>blob = emptyState, writes = 0, dialogs = 0\<rparr>"

text \<open>\<open>snap.request({method: "snap_dialog", ...})\<close>: one more dialog has been shown; the
  answer is an argument of the handler.\<close>

definition snap_dialog :: "World \<Rightarrow> World" where
  "snap_dialog w = w\<lparr>dialogs := Suc (dialogs w)\<rparr>"

text \<open>Modelled from the spec: \<open>StateManager.make\<close> (the class \<open>StateManager\<close> of
  \<open>../state\<close> is not among the sources) loads the latest persisted state and constructs the
  manager from it.\<close>

definition make :: "World \<Rightarrow> IState" where
  "make w = blob w"

text \<open>Modelled from the spec: \<open>StateManager.persist\<close> serialises the whole state of the
  manager and writes it to the encrypted storage.\<close>

definition persist :: "IState \<Rightarrow> World \<Rightarrow> World" where
  "persist manager w = w\<lparr>blob := manager, writes := Suc (writes w)\<rparr>"

text \<open>Modelled from the spec: the default entry of an origin has \<open>identitiesTotal = 0\<close>,
  empty link sets and no session.\<close>

definition makeDefaultOriginData :: IOriginData where
  "makeDefaultOriginData =
     \<lparr>identitiesTotal = 0, linksFrom = [], linksTo = [], currentSession = None\<rparr>"

text \<open>
  The handlers assign to fields of the object that \<open>getOriginData\<close> returns, so the model
  says which object that is: the entry stored under an origin, or a fresh object that the
  state does not hold.
\<close>

datatype OriginDataRef = Stored TOrigin | Fresh IOriginData

text \<open>Modelled from the spec: \<open>StateManager.getOriginData\<close> returns the existing entry
  or a freshly materialised default, which is not yet part of the state.\<close>

definition getOriginData :: "IState \<Rightarrow> TOrigin \<Rightarrow> OriginDataRef" where
  "getOriginData manager origin =
     (case originData manager origin of
        Some d \<Rightarrow> Stored origin
      | None \<Rightarrow> Fresh makeDefaultOriginData)"

text \<open>Reading the object behind a reference.\<close>

definition deref :: "IState \<Rightarrow> OriginDataRef \<Rightarrow> IOriginData" where
  "deref manager r =
     (case r of
        Stored origin \<Rightarrow>
          (case originData manager origin of Some d \<Rightarrow> d | None \<Rightarrow> makeDefaultOriginData)
      | Fresh d \<Rightarrow> d)"

text \<open>\<open>r.currentSession = v\<close>: the assignment changes the stored entry when the reference
  is to one, and only the local object otherwise.\<close>

definition assignCurrentSession ::
  "IState \<Rightarrow> OriginDataRef \<Rightarrow> ISession option \<Rightarrow> IState \<times> OriginDataRef" where
  "assignCurrentSession manager r v =
     (case r of
        Stored origin \<Rightarrow>
          (manager\<lparr>originData :=
             (originData manager)(origin \<mapsto> (deref manager r)\<lparr>currentSession := v\<rparr>)\<rparr>, r)
      | Fresh d \<Rightarrow> (manager, Fresh (d\<lparr>currentSession := v\<rparr>)))"

text \<open>Modelled from the spec: \<open>StateManager.setOriginData\<close> replaces the stored entry of
  the origin wholesale.\<close>

definition setOriginData :: "IState \<Rightarrow> TOrigin \<Rightarrow> OriginDataRef \<Rightarrow> IState" where
  "setOriginData manager origin r =
     manager\<lparr>originData := (originData manager)(origin \<mapsto> deref manager r)\<rparr>"

text \<open>Modelled from the spec: \<open>StateManager.addIdentity\<close> increments \<open>identitiesTotal\<close>
  of the origin.\<close>

definition addIdentity :: "IState \<Rightarrow> TOrigin \<Rightarrow> IState" where
  "addIdentity manager origin =
     (let d = deref manager (getOriginData manager origin)
      in manager\<lparr>originData :=
           (originData manager)(origin \<mapsto> d\<lparr>identitiesTotal := Suc (identitiesTotal d)\<rparr>)\<rparr>)"

text \<open>Modelled from the spec: \<open>StateManager.incrementStats\<close> updates an auxiliary usage
  counter, which no authorisation or derivation reads.\<close>

definition incrementStats :: "IState \<Rightarrow> TOrigin \<Rightarrow> IState" where
  "incrementStats manager origin =
     manager\<lparr>statistics := (statistics manager)(origin := Suc (statistics manager origin))\<rparr>"

text \<open>Modelled from the spec: \<open>StateManager.linkExists(origin, otherOrigin)\<close> is true iff
  \<open>otherOrigin\<close> is in \<open>linksTo(origin)\<close>.\<close>

definition linkExists :: "IState \<Rightarrow> TOrigin \<Rightarrow> TOrigin \<Rightarrow> bool" where
  "linkExists manager from to =
     (to \<in> set (linksTo (deref manager (getOriginData manager from))))"

text \<open>The link sets are kept in insertion order without duplicates.\<close>

definition setAdd :: "TOrigin \<Rightarrow> TOrigin list \<Rightarrow> TOrigin list" where
  "setAdd x xs = (if x \<in> set xs then xs else xs @ [x])"

definition setRemove :: "TOrigin \<Rightarrow> TOrigin list \<Rightarrow> TOrigin list" where
  "setRemove x xs = filter (\<lambda>y. y \<noteq> x) xs"

text \<open>Modelled from the spec: \<open>StateManager.link(origin, otherOrigin)\<close> adds the edge in
  both directional sets; it does nothing when the two origins are equal or when the edge
  already exists.\<close>

definition link :: "IState \<Rightarrow> TOrigin \<Rightarrow> TOrigin \<Rightarrow> IState" where
  "link manager from to =
     (if from = to \<or> linkExists manager from to then manager
      else
        let fromData = deref manager (getOriginData manager from);
            manager = manager\<lparr>originData :=
              (originData manager)(from \<mapsto> fromData\<lparr>linksTo := setAdd to (linksTo fromData)\<rparr>)\<rparr>;
            toData = deref manager (getOriginData manager to);
            manager = manager\<lparr>originData :=
              (originData manager)(to \<mapsto> toData\<lparr>linksFrom := setAdd from (linksFrom toData)\<rparr>)\<rparr>
        in manager)"

text \<open>Modelled from the spec: \<open>StateManager.unlink(origin, otherOrigin)\<close> removes the edge
  from both directional sets if present; it does nothing if the edge is absent.\<close>

definition unlink :: "IState \<Rightarrow> TOrigin \<Rightarrow> TOrigin \<Rightarrow> IState" where
  "unlink manager from to =
     (if \<not> linkExists manager from to then manager
      else
        let fromData = deref manager (getOriginData manager from);
            manager = manager\<lparr>originData :=
              (originData manager)(from \<mapsto> fromData\<lparr>linksTo := setRemove to (linksTo fromData)\<rparr>)\<rparr>;
            toData = deref manager (getOriginData manager to);
            manager = manager\<lparr>originData :=
              (originData manager)(to \<mapsto> toData\<lparr>linksFrom := setRemove from (linksFrom toData)\<rparr>)\<rparr>
        in manager)"

section \<open>Identity protocol handlers (src/packages/shared/src/types.ts, second part)\<close>

text \<open>
  A handler takes the decoded request body and the world and either throws (\<open>Inl\<close>) or
  returns its result with the world it leaves. \<open>err\<close> and \<open>unreacheable\<close> throw, so nothing
  after them runs and the world is the one before the request.
\<close>

definition protected_handleIdentityAdd ::
  "IIdentityAddRequest \<Rightarrow> World \<Rightarrow> ErrorCode + (bool \<times> World)" where
  "protected_handleIdentityAdd body w =
     (let manager = make w;
          manager = addIdentity manager (add_toOrigin body);
          manager = incrementStats manager (add_toOrigin body);
          w = persist manager w
      in Inr (True, w))"

text \<open>\<open>timestamp\<close> is the value of \<open>new Date().getTime()\<close> at the request.\<close>

definition protected_handleIdentityLogin ::
  "IIdentityLoginRequest \<Rightarrow> TTimestamp \<Rightarrow> World \<Rightarrow> ErrorCode + (bool \<times> World)" where
  "protected_handleIdentityLogin body timestamp w =
     (let manager = make w
      in if (case withLinkedOrigin body of
               None \<Rightarrow> False
             | Some linked \<Rightarrow>
                 linked \<noteq> toOrigin body \<and> \<not> linkExists manager linked (toOrigin body))
         then Inl UNAUTHORIZED
         else
           let originData' = getOriginData manager (toOrigin body)
           in if identitiesTotal (deref manager originData') = 0 then Inl UNREACHEABLE
              else
                let (manager, originData') =
                      assignCurrentSession manager originData'
                        (Some \<lparr>identityId = withIdentityId body,
                               deriviationOrigin =
                                 (case withLinkedOrigin body of
                                    None \<Rightarrow> toOrigin body
                                  | Some linked \<Rightarrow> linked),
                               timestampMs = timestamp\<rparr>);
                    manager = setOriginData manager (toOrigin body) originData';
                    manager = incrementStats manager (toOrigin body);
                    w = persist manager w
                in Inr (True, w))"

text \<open>The inner loop \<open>for (let i = 0; i < identitiesTotal; i++)\<close>, pushing one principal per
  index.\<close>

function optionsLoop ::
  "Host \<Rightarrow> TOrigin \<Rightarrow> nat \<Rightarrow> nat \<Rightarrow> string list \<Rightarrow> string list" where
  "optionsLoop h origin total' i options =
     (if i < total'
      then
        let identity = getSignIdentity h origin i None;
            principal = getPrincipalText h identity
        in optionsLoop h origin total' (i + 1) (options @ [principal])
      else options)"
  by pat_completeness auto
termination
  by (relation "measure (\<lambda>(h, origin, total', i, options). total' - i)") auto

declare optionsLoop.simps [simp del]

text \<open>The outer loop \<open>for (const origin of originData.linksFrom)\<close>.\<close>

fun linkedLoop ::
  "Host \<Rightarrow> IState \<Rightarrow> TOrigin list \<Rightarrow> (TOrigin \<times> string list) list
     \<Rightarrow> (TOrigin \<times> string list) list" where
  "linkedLoop h manager [] result = result"
| "linkedLoop h manager (origin # rest) result =
     (let linkedOriginData = deref manager (getOriginData manager origin);
          options = optionsLoop h origin (identitiesTotal linkedOriginData) 0 []
      in linkedLoop h manager rest (result @ [(origin, options)]))"

definition protected_handleIdentityGetLoginOptions ::
  "Host \<Rightarrow> IIdentityGetLoginOptionsRequest \<Rightarrow> World
     \<Rightarrow> ErrorCode + ((TOrigin \<times> string list) list \<times> World)" where
  "protected_handleIdentityGetLoginOptions h body w =
     (let manager = make w;
          manager = incrementStats manager (forOrigin body);
          originData' = deref manager (getOriginData manager (forOrigin body));
          options = optionsLoop h (forOrigin body) (identitiesTotal originData') 0 [];
          result = [(forOrigin body, options)];
          result = linkedLoop h manager (linksFrom originData') result;
          w = persist manager w
      in Inr (result, w))"

text \<open>\<open>agreed\<close> is what the user answers when the confirmation dialog is shown.\<close>

definition handleIdentityLogoutRequest ::
  "bool \<Rightarrow> TOrigin \<Rightarrow> World \<Rightarrow> ErrorCode + (bool \<times> World)" where
  "handleIdentityLogoutRequest agreed origin w =
     (let manager = make w;
          originData' = getOriginData manager origin
      in if currentSession (deref manager originData') = None then Inr (True, w)
         else
           let w = snap_dialog w
           in if agreed = False then Inr (False, w)
              else
                let (manager, originData') = assignCurrentSession manager originData' None;
                    manager = setOriginData manager origin originData';
                    manager = incrementStats manager origin;
                    w = persist manager w
                in Inr (True, w))"

text \<open>The session that the sign and public-key handlers use: the stored one, or the implicit
  one of the Masquerade site.\<close>

definition sessionOrImplicit :: "Host \<Rightarrow> IState \<Rightarrow> TOrigin \<Rightarrow> ErrorCode + ISession" where
  "sessionOrImplicit h manager origin =
     (case currentSession (deref manager (getOriginData manager origin)) of
        None \<Rightarrow>
          if isMasquerade h origin
          then Inr \<lparr>identityId = 0, deriviationOrigin = origin, timestampMs = 0\<rparr>
          else Inl UNAUTHORIZED
      | Some session \<Rightarrow> Inr session)"

definition handleIdentitySign ::
  "Host \<Rightarrow> IIdentitySignRequest \<Rightarrow> TOrigin \<Rightarrow> World \<Rightarrow> ErrorCode + (byte list \<times> World)" where
  "handleIdentitySign h body origin w =
     (let manager = make w
      in case sessionOrImplicit h manager origin of
           Inl e \<Rightarrow> Inl e
         | Inr session \<Rightarrow>
             let identity =
                   getSignIdentity h (deriviationOrigin session) (identityId session)
                     (sign_salt body);
                 manager = incrementStats manager origin;
                 w = persist manager w
             in Inr (sign h identity (challenge body), w))"

definition handleIdentityGetPublicKey ::
  "Host \<Rightarrow> IIdentityGetPublicKeyRequest \<Rightarrow> TOrigin \<Rightarrow> World
     \<Rightarrow> ErrorCode + (byte list \<times> World)" where
  "handleIdentityGetPublicKey h body origin w =
     (let manager = make w
      in case sessionOrImplicit h manager origin of
           Inl e \<Rightarrow> Inl e
         | Inr session \<Rightarrow>
             let identity =
                   getSignIdentity h (deriviationOrigin session) (identityId session)
                     (pk_salt body);
                 manager = incrementStats manager origin;
                 w = persist manager w
             in Inr (getPublicKeyRaw h identity, w))"

definition handleIdentityLinkRequest ::
  "bool \<Rightarrow> IIdentityLinkRequest \<Rightarrow> TOrigin \<Rightarrow> World \<Rightarrow> ErrorCode + (bool \<times> World)" where
  "handleIdentityLinkRequest agreed body origin w =
     (let manager = make w
      in if origin = link_withOrigin body then Inl INVALID_INPUT
         else if linkExists manager origin (link_withOrigin body) then Inr (True, w)
         else
           let w = snap_dialog w
           in if agreed = False then Inr (False, w)
              else
                let manager = link manager origin (link_withOrigin body);
                    manager = incrementStats manager origin;
                    w = persist manager w
                in Inr (True, w))"

definition handleIdentityUnlinkRequest ::
  "bool \<Rightarrow> IIdentityUnlinkRequest \<Rightarrow> TOrigin \<Rightarrow> World \<Rightarrow> ErrorCode + (bool \<times> World)" where
  "handleIdentityUnlinkRequest agreed body origin w =
     (let manager = make w
      in if \<not> linkExists manager origin (unlink_withOrigin body) then Inr (True, w)
         else
           let w = snap_dialog w
           in if agreed = False then Inr (False, w)
              else
                let manager = unlink manager origin (unlink_withOrigin body);
                    targetOriginData = getOriginData manager (unlink_withOrigin body);
                    (manager, targetOriginData) =
                      (case currentSession (deref manager targetOriginData) of
                         None \<Rightarrow> (manager, targetOriginData)
                       | Some session \<Rightarrow>
                           if deriviationOrigin session = origin
                           then assignCurrentSession manager targetOriginData None
                           else (manager, targetOriginData));
                    manager = incrementStats manager origin;
                    w = persist manager w
                in Inr (True, w))"

definition handleIdentityGetLinks ::
  "TOrigin \<Rightarrow> World \<Rightarrow> ErrorCode + (TOrigin list \<times> World)" where
  "handleIdentityGetLinks origin w =
     (let manager = make w;
          originData' = getOriginData manager origin;
          manager = incrementStats manager origin;
          w = persist manager w
      in Inr (linksTo (deref manager originData'), w))"

definition handleIdentitySessionExists ::
  "TOrigin \<Rightarrow> World \<Rightarrow> ErrorCode + (bool \<times> World)" where
  "handleIdentitySessionExists origin w =
     (let manager = make w;
          manager = incrementStats manager origin;
          w = persist manager w
      in Inr (currentSession (deref manager (getOriginData manager origin)) \<noteq> None, w))"

section \<open>Sequences of requests\<close>

datatype Request =
  IdentityAdd IIdentityAddRequest
  | IdentityLogin IIdentityLoginRequest TTimestamp
  | IdentityGetLoginOptions IIdentityGetLoginOptionsRequest
  | IdentityLogout bool TOrigin
  | IdentitySign IIdentitySignRequest TOrigin
  | IdentityGetPublicKey IIdentityGetPublicKeyRequest TOrigin
  | IdentityLink bool IIdentityLinkRequest TOrigin
  | IdentityUnlink bool IIdentityUnlinkRequest TOrigin
  | IdentityGetLinks TOrigin
  | IdentitySessionExists TOrigin

text \<open>The world after a request: the one the handler leaves, or the one before when the
  handler throws.\<close>

definition after :: "World \<Rightarrow> ErrorCode + ('a \<times> World) \<Rightarrow> World" where
  "after w r = (case r of Inl e \<Rightarrow> w | Inr (x, w') \<Rightarrow> w')"

fun exec :: "Host \<Rightarrow> Request \<Rightarrow> World \<Rightarrow> World" where
  "exec h (IdentityAdd body) w = after w (protected_handleIdentityAdd body w)"
| "exec h (IdentityLogin body timestamp) w =
     after w (protected_handleIdentityLogin body timestamp w)"
| "exec h (IdentityGetLoginOptions body) w =
     after w (protected_handleIdentityGetLoginOptions h body w)"
| "exec h (IdentityLogout agreed origin) w =
     after w (handleIdentityLogoutRequest agreed origin w)"
| "exec h (IdentitySign body origin) w = after w (handleIdentitySign h body origin w)"
| "exec h (IdentityGetPublicKey body origin) w =
     after w (handleIdentityGetPublicKey h body origin w)"
| "exec h (IdentityLink agreed body origin) w =
     after w (handleIdentityLinkRequest agreed body origin w)"
| "exec h (IdentityUnlink agreed body origin) w =
     after w (handleIdentityUnlinkRequest agreed body origin w)"
| "exec h (IdentityGetLinks origin) w = after w (handleIdentityGetLinks origin w)"
| "exec h (IdentitySessionExists origin) w = after w (handleIdentitySessionExists origin w)"

fun run :: "Host \<Rightarrow> Request list \<Rightarrow> World \<Rightarrow> World" where
  "run h [] w = w"
| "run h (r # rs) w = run h rs (exec h r w)"

section \<open>Notions used in the properties\<close>

text \<open>The entry of an origin as the manager of a request sees it.\<close>

abbreviation originDataOf :: "World \<Rightarrow> TOrigin \<Rightarrow> IOriginData" where
  "originDataOf w origin \<equiv> deref (blob w) (getOriginData (blob w) origin)"

text \<open>The link graph is the same read from either side.\<close>

definition linkConsistent :: "IState \<Rightarrow> bool" where
  "linkConsistent s =
     (\<forall>a b. (b \<in> set (linksTo (deref s (getOriginData s a))))
           = (a \<in> set (linksFrom (deref s (getOriginData s b)))))"

text \<open>The Entropy Source of the specification returns bytes for a label: the host's hex
  string without its \<open>0x\<close> prefix, decoded.\<close>

definition entropySource :: "Host \<Rightarrow> string \<Rightarrow> byte list" where
  "entropySource h label = hexToBytes h (drop 2 (snap_getEntropy h label))"

text \<open>The value of the local variable \<open>entropyPreBytes\<close> of \<open>getEntropy\<close>: what is hashed.\<close>

definition entropyPreBytes ::
  "Host \<Rightarrow> TOrigin \<Rightarrow> TIdentityId \<Rightarrow> string \<Rightarrow> byte list option \<Rightarrow> byte list" where
  "entropyPreBytes h origin identityId' internalSalt customSalt =
     (case customSalt of
        None \<Rightarrow> entropySource h (entropySalt h origin identityId' internalSalt)
      | Some salt \<Rightarrow> entropySource h (entropySalt h origin identityId' internalSalt) @ salt)"

text \<open>
  The reference algorithm, in the words of the specification: a label made of a fixed
  namespace tag, the origin, the identity index and the purpose label; the entropy of
  exactly that label; the custom salt appended when there is one; a fixed one-way hash
  of the result, which is the private key of the key pair. The printer of the index, the
  entropy source and the hash are its parameters.
\<close>

definition namespaceTag :: string where
  "namespaceTag = newline @ ''masquerade-snap'' @ newline"

fun joinLines :: "string list \<Rightarrow> string" where
  "joinLines [] = []"
| "joinLines [x] = x"
| "joinLines (x # y # ys) = x @ newline @ joinLines (y # ys)"

definition referenceLabel ::
  "(nat \<Rightarrow> string) \<Rightarrow> TOrigin \<Rightarrow> TIdentityId \<Rightarrow> string \<Rightarrow> string" where
  "referenceLabel printIndex origin identityIndex purposeLabel =
     namespaceTag @ joinLines [origin, printIndex identityIndex, purposeLabel]"

definition referenceDerive ::
  "(nat \<Rightarrow> string) \<Rightarrow> (string \<Rightarrow> byte list) \<Rightarrow> (byte list \<Rightarrow> byte list) \<Rightarrow> TOrigin
     \<Rightarrow> TIdentityId \<Rightarrow> string \<Rightarrow> byte list option \<Rightarrow> Secp256k1KeyIdentity" where
  "referenceDerive printIndex source hash origin identityIndex purposeLabel customSalt =
     (let label = referenceLabel printIndex origin identityIndex purposeLabel;
          entropy = source label;
          salted = (case customSalt of None \<Rightarrow> entropy | Some salt \<Rightarrow> entropy @ salt)
      in fromSecretKey (hash salted))"

text \<open>
  A small host for running the handlers on concrete requests: its entropy is the label
  itself behind \<open>0x\<close>, its decoder reads one byte per character, its hash pads or cuts to
  32 bytes, its principal is the secret key read as text and its public key the secret
  key reversed.
\<close>

definition textOfBytes :: "byte list \<Rightarrow> string" where
  "textOfBytes = map (\<lambda>b. char_of (unat b))"

definition demoHost :: Host where
  "demoHost =
     \<lparr>snap_getEntropy = (\<lambda>salt. ''0x'' @ salt),
      hexToBytes = map (\<lambda>c. of_nat (of_char c)),
      sha256 = (\<lambda>bs. take 32 (bs @ replicate 32 0)),
      principalText = textOfBytes,
      publicKeyRaw = rev,
      signPayload = (\<lambda>key payload. key @ payload),
      printUnsafeInteger = (\<lambda>n. decimalDigits n @ ''e+0''),
      MSQ_SNAP_SITE_ORIGIN = ''https://msq.example''\<rparr>"

definition originA :: TOrigin where
  "originA = ''https://a.example''"

definition originB :: TOrigin where
  "originB = ''https://b.example''"

text \<open>One mask on \<open>a.example\<close> and nothing else.\<close>

definition worldOneMask :: World where
  "worldOneMask = run demoHost [IdentityAdd \<lparr>add_toOrigin = originA\<rparr>] freshWorld"

text \<open>One mask on \<open>b.example\<close>, none on \<open>a.example\<close>, and the link from \<open>a.example\<close> to
  \<open>b.example\<close> confirmed.\<close>

definition worldLinkedNoMask :: World where
  "worldLinkedNoMask =
     run demoHost
       [IdentityAdd \<lparr>add_toOrigin = originB\<rparr>,
        IdentityLink True \<lparr>link_withOrigin = originB\<rparr> originA]
       freshWorld"

text \<open>A session on \<open>b.example\<close> that wears the first mask of \<open>a.example\<close>.\<close>

definition worldBorrowedSession :: World where
  "worldBorrowedSession =
     run demoHost
       [IdentityAdd \<lparr>add_toOrigin = originA\<rparr>,
        IdentityAdd \<lparr>add_toOrigin = originB\<rparr>,
        IdentityLink True \<lparr>link_withOrigin = originB\<rparr> originA,
        IdentityLogin
          \<lparr>toOrigin = originB, withIdentityId = 0, withLinkedOrigin = Some originA\<rparr> 1000]
       freshWorld"

text \<open>The same masks and link, with a session on \<open>b.example\<close> that wears its own first
  mask.\<close>

definition worldOwnSession :: World where
  "worldOwnSession =
     run demoHost
       [IdentityAdd \<lparr>add_toOrigin = originA\<rparr>,
        IdentityAdd \<lparr>add_toOrigin = originB\<rparr>,
        IdentityLink True \<lparr>link_withOrigin = originB\<rparr> originA,
        IdentityLogin
          \<lparr>toOrigin = originB, withIdentityId = 0, withLinkedOrigin = None\<rparr> 1000]
       freshWorld"

section \<open>Reading and writing entries\<close>

lemma deref_getOriginData:
  "deref manager (getOriginData manager origin) =
     (case originData manager origin of Some d \<Rightarrow> d | None \<Rightarrow> makeDefaultOriginData)"
  by (simp add: deref_def getOriginData_def split: option.splits)

lemma deref_Stored:
  "deref manager (Stored origin) =
     (case originData manager origin of Some d \<Rightarrow> d | None \<Rightarrow> makeDefaultOriginData)"
  by (simp add: deref_def)

lemma deref_Fresh: "deref manager (Fresh d) = d"
  by (simp add: deref_def)

lemma originData_incrementStats [simp]:
  "originData (incrementStats manager origin) = originData manager"
  by (simp add: incrementStats_def)

lemma set_setAdd [simp]: "set (setAdd x xs) = insert x (set xs)"
  by (auto simp: setAdd_def)

lemma set_setRemove [simp]: "set (setRemove x xs) = set xs - {x}"
  by (auto simp: setRemove_def)

lemma linkConsistent_incrementStats [simp]:
  "linkConsistent (incrementStats m origin) = linkConsistent m"
  by (simp add: linkConsistent_def deref_getOriginData)

lemma linkConsistent_addIdentity:
  "linkConsistent m \<Longrightarrow> linkConsistent (addIdentity m origin)"
  by (simp add: linkConsistent_def deref_getOriginData addIdentity_def Let_def)

lemma linkConsistent_link:
  assumes "linkConsistent m"
  shows "linkConsistent (link m f t)"
proof (cases "f = t \<or> linkExists m f t")
  case True
  then show ?thesis using assms by (simp add: link_def)
next
  case False
  then have ft: "f \<noteq> t" by simp
  show ?thesis
    using assms False ft
    unfolding linkConsistent_def link_def Let_def deref_getOriginData
    by (simp split: option.splits) 
qed

lemma linkConsistent_unlink:
  assumes "linkConsistent m"
  shows "linkConsistent (unlink m f t)"
proof (cases "linkExists m f t")
  case False
  then show ?thesis using assms by (simp add: unlink_def)
next
  case True
  show ?thesis
    using assms True
    unfolding linkConsistent_def unlink_def Let_def deref_getOriginData
    by (simp split: option.splits) 
qed


lemma linkConsistent_same_links:
  assumes "\<And>a. linksTo (deref m' (getOriginData m' a)) = linksTo (deref m (getOriginData m a))"
    and "\<And>a. linksFrom (deref m' (getOriginData m' a)) = linksFrom (deref m (getOriginData m a))"
    and "linkConsistent m"
  shows "linkConsistent m'"
  using assms by (simp add: linkConsistent_def)

lemma deref_getOriginData_update:
  "deref (m\<lparr>originData := (originData m)(origin \<mapsto> d)\<rparr>)
     (getOriginData (m\<lparr>originData := (originData m)(origin \<mapsto> d)\<rparr>) a)
   = (if a = origin then d else deref m (getOriginData m a))"
  by (simp add: deref_getOriginData)

lemma assignCurrentSession_Stored:
  "fst (assignCurrentSession m (Stored origin) v)
   = m\<lparr>originData :=
        (originData m)(origin \<mapsto> (deref m (Stored origin))\<lparr>currentSession := v\<rparr>)\<rparr>"
  by (simp add: assignCurrentSession_def)

lemma assignCurrentSession_Fresh: "fst (assignCurrentSession m (Fresh d) v) = m"
  by (simp add: assignCurrentSession_def)

lemma assign_then_set:
  "setOriginData (fst (assignCurrentSession m (getOriginData m origin) v)) origin
     (snd (assignCurrentSession m (getOriginData m origin) v))
   = m\<lparr>originData :=
        (originData m)(origin \<mapsto> (deref m (getOriginData m origin))\<lparr>currentSession := v\<rparr>)\<rparr>"
  by (cases "originData m origin")
     (simp_all add: assignCurrentSession_def setOriginData_def getOriginData_def deref_def)

lemma linkConsistent_session_update:
  assumes "linkConsistent m"
  shows "linkConsistent
     (m\<lparr>originData :=
        (originData m)(origin \<mapsto> (deref m (getOriginData m origin))\<lparr>currentSession := v\<rparr>)\<rparr>)"
  by (rule linkConsistent_same_links [OF _ _ assms])
     (simp_all add: deref_getOriginData_update)

lemma linkConsistent_assignCurrentSession:
  assumes "linkConsistent m"
  shows "linkConsistent (fst (assignCurrentSession m (getOriginData m origin) v))"
proof (cases "originData m origin")
  case None
  then show ?thesis
    using assms by (simp add: getOriginData_def assignCurrentSession_Fresh)
next
  case (Some d)
  then have "fst (assignCurrentSession m (getOriginData m origin) v)
      = m\<lparr>originData :=
        (originData m)(origin \<mapsto> (deref m (getOriginData m origin))\<lparr>currentSession := v\<rparr>)\<rparr>"
    by (simp add: getOriginData_def assignCurrentSession_Stored)
  then show ?thesis
    using linkConsistent_session_update [OF assms] by simp
qed

lemma blob_persist [simp]: "blob (persist m w) = m"
  by (simp add: persist_def)

lemma blob_snap_dialog [simp]: "blob (snap_dialog w) = blob w"
  by (simp add: snap_dialog_def)

lemma exec_linkConsistent:
  assumes c: "linkConsistent (blob w)"
  shows "linkConsistent (blob (exec h r w))"
proof (cases r)
  case (IdentityAdd body)
  then show ?thesis
    using c by (simp add: after_def protected_handleIdentityAdd_def make_def Let_def
          linkConsistent_addIdentity)
next
  case (IdentityLogin body timestamp)
  then show ?thesis
    using c linkConsistent_session_update [OF c]
    by (simp add: after_def protected_handleIdentityLogin_def make_def Let_def
          case_prod_beta assign_then_set)
next
  case (IdentityGetLoginOptions body)
  then show ?thesis
    using c
    by (simp add: after_def protected_handleIdentityGetLoginOptions_def make_def Let_def)
next
  case (IdentityLogout agreed origin)
  then show ?thesis
    using c linkConsistent_session_update [OF c]
    by (simp add: after_def handleIdentityLogoutRequest_def make_def Let_def
          case_prod_beta assign_then_set)
next
  case (IdentitySign body origin)
  then show ?thesis
    using c
    by (simp add: after_def handleIdentitySign_def make_def Let_def split: sum.splits)
next
  case (IdentityGetPublicKey body origin)
  then show ?thesis
    using c
    by (simp add: after_def handleIdentityGetPublicKey_def make_def Let_def split: sum.splits)
next
  case (IdentityLink agreed body origin)
  then show ?thesis
    using c
    by (simp add: after_def handleIdentityLinkRequest_def make_def Let_def
          linkConsistent_link)
next
  case (IdentityUnlink agreed body origin)
  have u: "linkConsistent (unlink (blob w) origin (unlink_withOrigin body))"
    using c by (rule linkConsistent_unlink)
  show ?thesis
    using u c linkConsistent_assignCurrentSession [OF u, of "unlink_withOrigin body" None]
    by (simp add: IdentityUnlink after_def handleIdentityUnlinkRequest_def make_def Let_def
          split_beta split: option.splits)
next
  case (IdentityGetLinks origin)
  then show ?thesis
    using c by (simp add: after_def handleIdentityGetLinks_def make_def Let_def)
next
  case (IdentitySessionExists origin)
  then show ?thesis
    using c by (simp add: after_def handleIdentitySessionExists_def make_def Let_def)
qed

lemma run_linkConsistent:
  "linkConsistent (blob w) \<Longrightarrow> linkConsistent (blob (run h rs w))"
  by (induction rs arbitrary: w) (simp_all add: exec_linkConsistent)

lemma linkConsistent_fresh: "linkConsistent (blob freshWorld)"
  by (simp add: linkConsistent_def freshWorld_def emptyState_def deref_getOriginData
        makeDefaultOriginData_def)

text \<open>
  C6: in every state reached from the empty state by any sequence of requests to the
  identity handlers (add, login, login options, logout, sign, public key, link, unlink,
  links, session query), with any answers to the dialogs, \<open>b\<close> is in \<open>linksTo(a)\<close> if and
  only if \<open>a\<close> is in \<open>linksFrom(b)\<close>.
\<close>

theorem link_graph_consistent:
  "(b \<in> set (linksTo (deref (blob (run h rs freshWorld))
                     (getOriginData (blob (run h rs freshWorld)) a))))
   = (a \<in> set (linksFrom (deref (blob (run h rs freshWorld))
                     (getOriginData (blob (run h rs freshWorld)) b))))"
  using run_linkConsistent [OF linkConsistent_fresh, of h rs]
  unfolding linkConsistent_def by blast


lemma deref_getOriginData_incrementStats [simp]:
  "deref (incrementStats m origin) (getOriginData (incrementStats m origin) a)
   = deref m (getOriginData m a)"
  by (simp add: deref_getOriginData)

lemma login_result:
  "protected_handleIdentityLogin body timestamp w =
     (if (case withLinkedOrigin body of
            None \<Rightarrow> False
          | Some linked \<Rightarrow>
              linked \<noteq> toOrigin body \<and> \<not> linkExists (blob w) linked (toOrigin body))
      then Inl UNAUTHORIZED
      else if identitiesTotal (originDataOf w (toOrigin body)) = 0 then Inl UNREACHEABLE
      else Inr (True,
        persist
          (incrementStats
             ((blob w)\<lparr>originData := (originData (blob w))
                (toOrigin body \<mapsto> (originDataOf w (toOrigin body))
                   \<lparr>currentSession :=
                      Some \<lparr>identityId = withIdentityId body,
                            deriviationOrigin =
                              (case withLinkedOrigin body of
                                 None \<Rightarrow> toOrigin body
                               | Some linked \<Rightarrow> linked),
                            timestampMs = timestamp\<rparr>\<rparr>)\<rparr>)
             (toOrigin body))
          w))"
  by (simp add: protected_handleIdentityLogin_def make_def Let_def case_prod_beta
        assign_then_set)

text \<open>
  C2: a login whose derivation origin differs from the login origin fails with
  \<open>UNAUTHORIZED\<close> when no link from the derivation origin to the login origin exists; a
  login whose derivation origin is the login origin, with an index below
  \<open>identitiesTotal\<close>, succeeds and makes the requested session the current one.
\<close>

theorem login_requires_link:
  "(withLinkedOrigin body = Some linked \<and> linked \<noteq> toOrigin body
      \<and> \<not> linkExists (blob w) linked (toOrigin body)
     \<longrightarrow> protected_handleIdentityLogin body timestamp w = Inl UNAUTHORIZED)
   \<and> ((withLinkedOrigin body = None \<or> withLinkedOrigin body = Some (toOrigin body))
      \<and> withIdentityId body < identitiesTotal (originDataOf w (toOrigin body))
     \<longrightarrow> (\<exists>w'. protected_handleIdentityLogin body timestamp w = Inr (True, w')
            \<and> currentSession (originDataOf w' (toOrigin body))
                = Some \<lparr>identityId = withIdentityId body,
                         deriviationOrigin = toOrigin body,
                         timestampMs = timestamp\<rparr>))"
  by (auto simp: login_result deref_getOriginData_update split: option.splits)

theorem login_requires_link_witness:
  "protected_handleIdentityLogin
      \<lparr>toOrigin = originB, withIdentityId = 0, withLinkedOrigin = Some originA\<rparr> 1000
      worldOneMask = Inl UNAUTHORIZED
   \<and> (\<exists>w'. protected_handleIdentityLogin
      \<lparr>toOrigin = originA, withIdentityId = 0, withLinkedOrigin = None\<rparr> 1000
      worldOneMask = Inr (True, w')
      \<and> currentSession (originDataOf w' originA)
          = Some \<lparr>identityId = 0, deriviationOrigin = originA, timestampMs = 1000\<rparr>)"
proof -
  have a: "\<not> linkExists (blob worldOneMask) originA originB"
    by (simp add: worldOneMask_def freshWorld_def emptyState_def after_def
          protected_handleIdentityAdd_def make_def addIdentity_def incrementStats_def
          persist_def linkExists_def deref_getOriginData makeDefaultOriginData_def
          originA_def originB_def Let_def)
  have b: "(0::nat) < identitiesTotal (originDataOf worldOneMask originA)"
    by (simp add: worldOneMask_def freshWorld_def emptyState_def after_def
          protected_handleIdentityAdd_def make_def addIdentity_def incrementStats_def
          persist_def deref_getOriginData makeDefaultOriginData_def
          originA_def originB_def Let_def)
  have c: "originA \<noteq> originB" by (simp add: originA_def originB_def)
  show ?thesis
    using a b c
      login_requires_link [of "\<lparr>toOrigin = originB, withIdentityId = 0,
          withLinkedOrigin = Some originA\<rparr>" originA worldOneMask 1000]
      login_requires_link [of "\<lparr>toOrigin = originA, withIdentityId = 0,
          withLinkedOrigin = None\<rparr>" originA worldOneMask 1000]
    by simp
qed

lemma worldOneMask_blob:
  "blob worldOneMask =
     \<lparr>siteSession = None,
      originData = [originA \<mapsto>
        \<lparr>identitiesTotal = 1, linksFrom = [], linksTo = [], currentSession = None\<rparr>],
      statistics = (\<lambda>_. 0)(originA := 1)\<rparr>"
  by (simp add: worldOneMask_def freshWorld_def emptyState_def after_def
        protected_handleIdentityAdd_def make_def addIdentity_def incrementStats_def
        persist_def deref_getOriginData makeDefaultOriginData_def Let_def)

lemma originA_neq_originB [simp]: "originA \<noteq> originB" "originB \<noteq> originA"
  by (simp_all add: originA_def originB_def)

lemma worldLinkedNoMask_blob:
  "blob worldLinkedNoMask =
     \<lparr>siteSession = None,
      originData = [originB \<mapsto>
          \<lparr>identitiesTotal = 1, linksFrom = [originA], linksTo = [], currentSession = None\<rparr>,
        originA \<mapsto>
          \<lparr>identitiesTotal = 0, linksFrom = [], linksTo = [originB], currentSession = None\<rparr>],
      statistics = (\<lambda>_. 0)(originB := 1, originA := 1)\<rparr>"
  by (simp add: worldLinkedNoMask_def freshWorld_def emptyState_def after_def
        protected_handleIdentityAdd_def handleIdentityLinkRequest_def snap_dialog_def
        link_def linkExists_def setAdd_def
        make_def addIdentity_def incrementStats_def
        persist_def deref_getOriginData makeDefaultOriginData_def Let_def fun_upd_twist)

text \<open>
  C1, as stated, fails: with one mask on \<open>a.example\<close>, a login there with index 7
  succeeds; and with the link from \<open>a.example\<close> to \<open>b.example\<close> in place, no mask on
  \<open>a.example\<close> and one on \<open>b.example\<close>, the login to \<open>b.example\<close> with the mask 0 of
  \<open>a.example\<close> succeeds.
\<close>

theorem login_index_unchecked_counterexample:
  "\<not> isl (protected_handleIdentityLogin
            \<lparr>toOrigin = originA, withIdentityId = 7, withLinkedOrigin = None\<rparr> 1000
            worldOneMask)
   \<and> \<not> 7 < identitiesTotal (originDataOf worldOneMask originA)
   \<and> linkExists (blob worldLinkedNoMask) originA originB
   \<and> \<not> isl (protected_handleIdentityLogin
            \<lparr>toOrigin = originB, withIdentityId = 0, withLinkedOrigin = Some originA\<rparr> 1000
            worldLinkedNoMask)
   \<and> identitiesTotal (originDataOf worldLinkedNoMask originA) = 0"
  by (simp add: login_result worldOneMask_blob worldLinkedNoMask_blob linkExists_def
        deref_getOriginData)

text \<open>
  C1, amended: a login that passes the link check fails with the Unreachable error exactly
  when the login origin (\<open>toOrigin\<close>) has no identity; otherwise it succeeds and records
  the requested index, whatever it is, with the requested derivation origin.
\<close>

theorem login_checks_login_origin:
  assumes "case withLinkedOrigin body of
             None \<Rightarrow> True
           | Some linked \<Rightarrow>
               linked = toOrigin body \<or> linkExists (blob w) linked (toOrigin body)"
  shows "(identitiesTotal (originDataOf w (toOrigin body)) = 0
           \<longrightarrow> protected_handleIdentityLogin body timestamp w = Inl UNREACHEABLE)
       \<and> (identitiesTotal (originDataOf w (toOrigin body)) \<noteq> 0
           \<longrightarrow> (\<exists>w'. protected_handleIdentityLogin body timestamp w = Inr (True, w')
                  \<and> currentSession (originDataOf w' (toOrigin body))
                      = Some \<lparr>identityId = withIdentityId body,
                               deriviationOrigin =
                                 (case withLinkedOrigin body of
                                    None \<Rightarrow> toOrigin body
                                  | Some linked \<Rightarrow> linked),
                               timestampMs = timestamp\<rparr>))"
  using assms
  by (auto simp: login_result deref_getOriginData_update split: option.splits)

theorem login_checks_login_origin_witness:
  "protected_handleIdentityLogin
      \<lparr>toOrigin = originB, withIdentityId = 0, withLinkedOrigin = None\<rparr> 1000
      worldOneMask = Inl UNREACHEABLE
   \<and> (\<exists>w'. protected_handleIdentityLogin
        \<lparr>toOrigin = originB, withIdentityId = 5, withLinkedOrigin = Some originA\<rparr> 1000
        worldLinkedNoMask = Inr (True, w')
      \<and> currentSession (originDataOf w' originB)
          = Some \<lparr>identityId = 5, deriviationOrigin = originA, timestampMs = 1000\<rparr>)"
proof -
  have a: "identitiesTotal (originDataOf worldOneMask originB) = 0"
    by (simp add: worldOneMask_blob deref_getOriginData makeDefaultOriginData_def)
  have b: "linkExists (blob worldLinkedNoMask) originA originB"
    by (simp add: worldLinkedNoMask_blob linkExists_def deref_getOriginData)
  have c: "identitiesTotal (originDataOf worldLinkedNoMask originB) \<noteq> 0"
    by (simp add: worldLinkedNoMask_blob deref_getOriginData)
  show ?thesis
    using a b c
      login_checks_login_origin [of "\<lparr>toOrigin = originB, withIdentityId = 0,
          withLinkedOrigin = None\<rparr>" worldOneMask 1000]
      login_checks_login_origin [of "\<lparr>toOrigin = originB, withIdentityId = 5,
          withLinkedOrigin = Some originA\<rparr>" worldLinkedNoMask 1000]
    by simp
qed


lemma logout_result:
  "handleIdentityLogoutRequest agreed origin w =
     (if currentSession (originDataOf w origin) = None then Inr (True, w)
      else if \<not> agreed then Inr (False, snap_dialog w)
      else Inr (True,
        persist
          (incrementStats
             ((blob w)\<lparr>originData := (originData (blob w))
                (origin \<mapsto> (originDataOf w origin)\<lparr>currentSession := None\<rparr>)\<rparr>)
             origin)
          (snap_dialog w)))"
  by (simp add: handleIdentityLogoutRequest_def make_def Let_def case_prod_beta
        assign_then_set)

lemma link_result:
  "handleIdentityLinkRequest agreed body origin w =
     (if origin = link_withOrigin body then Inl INVALID_INPUT
      else if linkExists (blob w) origin (link_withOrigin body) then Inr (True, w)
      else if \<not> agreed then Inr (False, snap_dialog w)
      else Inr (True,
        persist (incrementStats (link (blob w) origin (link_withOrigin body)) origin)
          (snap_dialog w)))"
  by (simp add: handleIdentityLinkRequest_def make_def Let_def)

lemma after_Inl [simp]: "after w (Inl e) = w"
  by (simp add: after_def)

lemma after_Inr [simp]: "after w (Inr (x, w')) = w'"
  by (simp add: after_def)

lemma writes_snap_dialog [simp]: "writes (snap_dialog w) = writes w"
  by (simp add: snap_dialog_def)

text \<open>
  C3: when the user answers the confirmation dialog of logout, link or unlink with
  \<open>false\<close>, the handler returns \<open>false\<close> and leaves a world that differs only in that one
  more dialog has been shown: the stored state is the same and nothing has been written.
  With that answer, no path of the three handlers changes the stored state or writes it.
\<close>

theorem declined_consent_changes_nothing:
  "(currentSession (originDataOf w origin) \<noteq> None
      \<longrightarrow> handleIdentityLogoutRequest False origin w = Inr (False, snap_dialog w))
   \<and> (origin \<noteq> link_withOrigin lbody \<and> \<not> linkExists (blob w) origin (link_withOrigin lbody)
      \<longrightarrow> handleIdentityLinkRequest False lbody origin w = Inr (False, snap_dialog w))
   \<and> (linkExists (blob w) origin (unlink_withOrigin ubody)
      \<longrightarrow> handleIdentityUnlinkRequest False ubody origin w = Inr (False, snap_dialog w))
   \<and> blob (snap_dialog w) = blob w \<and> writes (snap_dialog w) = writes w
   \<and> blob (after w (handleIdentityLogoutRequest False origin w)) = blob w
   \<and> writes (after w (handleIdentityLogoutRequest False origin w)) = writes w
   \<and> blob (after w (handleIdentityLinkRequest False lbody origin w)) = blob w
   \<and> writes (after w (handleIdentityLinkRequest False lbody origin w)) = writes w
   \<and> blob (after w (handleIdentityUnlinkRequest False ubody origin w)) = blob w
   \<and> writes (after w (handleIdentityUnlinkRequest False ubody origin w)) = writes w"
  by (simp add: logout_result link_result handleIdentityUnlinkRequest_def make_def Let_def)

lemma worldBorrowedSession_blob:
  "blob worldBorrowedSession =
     \<lparr>siteSession = None,
      originData = [originA \<mapsto>
          \<lparr>identitiesTotal = 1, linksFrom = [], linksTo = [originB], currentSession = None\<rparr>,
        originB \<mapsto>
          \<lparr>identitiesTotal = 1, linksFrom = [originA], linksTo = [],
             currentSession =
               Some \<lparr>identityId = 0, deriviationOrigin = originA, timestampMs = 1000\<rparr>\<rparr>],
      statistics = (\<lambda>_. 0)(originA := Suc (Suc 0), originB := Suc (Suc 0))\<rparr>"
  by (simp add: worldBorrowedSession_def freshWorld_def emptyState_def login_result
        protected_handleIdentityAdd_def link_result snap_dialog_def
        link_def linkExists_def setAdd_def
        make_def addIdentity_def incrementStats_def
        persist_def deref_getOriginData makeDefaultOriginData_def Let_def fun_upd_twist)

theorem declined_consent_changes_nothing_witness:
  "handleIdentityLogoutRequest False originB worldBorrowedSession
     = Inr (False, snap_dialog worldBorrowedSession)
   \<and> handleIdentityLinkRequest False \<lparr>link_withOrigin = originA\<rparr> originB worldBorrowedSession
     = Inr (False, snap_dialog worldBorrowedSession)
   \<and> handleIdentityUnlinkRequest False \<lparr>unlink_withOrigin = originB\<rparr> originA
       worldBorrowedSession
     = Inr (False, snap_dialog worldBorrowedSession)
   \<and> blob (snap_dialog worldBorrowedSession) = blob worldBorrowedSession"
proof -
  have a: "currentSession (originDataOf worldBorrowedSession originB) \<noteq> None"
    by (simp add: worldBorrowedSession_blob deref_getOriginData)
  have b: "\<not> linkExists (blob worldBorrowedSession) originB originA"
    by (simp add: worldBorrowedSession_blob linkExists_def deref_getOriginData)
  have c: "linkExists (blob worldBorrowedSession) originA originB"
    by (simp add: worldBorrowedSession_blob linkExists_def deref_getOriginData)
  show ?thesis
    using a b c
      declined_consent_changes_nothing [of worldBorrowedSession originB
        "\<lparr>link_withOrigin = originA\<rparr>" "\<lparr>unlink_withOrigin = originA\<rparr>"]
      declined_consent_changes_nothing [of worldBorrowedSession originA
        "\<lparr>link_withOrigin = originB\<rparr>" "\<lparr>unlink_withOrigin = originB\<rparr>"]
    by simp
qed


text \<open>
  C10: when an origin has no current session, the sign handler fails with \<open>UNAUTHORIZED\<close>
  for every origin other than the Masquerade site origin; for the Masquerade site origin
  it signs the challenge with the key pair of identity 0 derived for that origin.
\<close>

theorem sign_without_session:
  assumes "currentSession (originDataOf w origin) = None"
  shows "(origin \<noteq> MSQ_SNAP_SITE_ORIGIN h
            \<longrightarrow> handleIdentitySign h body origin w = Inl UNAUTHORIZED)
       \<and> (origin = MSQ_SNAP_SITE_ORIGIN h
            \<longrightarrow> handleIdentitySign h body origin w
                = Inr (sign h (getSignIdentity h origin 0 (sign_salt body)) (challenge body),
                       persist (incrementStats (blob w) origin) w))"
  using assms
  by (auto simp: handleIdentitySign_def sessionOrImplicit_def isMasquerade_def make_def Let_def)

theorem sign_without_session_witness:
  "handleIdentitySign demoHost \<lparr>challenge = [1, 2, 3], sign_salt = None\<rparr> originA freshWorld
     = Inl UNAUTHORIZED
   \<and> handleIdentitySign demoHost \<lparr>challenge = [1, 2, 3], sign_salt = None\<rparr>
        ''https://msq.example'' freshWorld
     = Inr (sign demoHost (getSignIdentity demoHost ''https://msq.example'' 0 None) [1, 2, 3],
            persist (incrementStats (blob freshWorld) ''https://msq.example'') freshWorld)"
proof -
  have a: "currentSession (originDataOf freshWorld origin) = None" for origin
    by (simp add: freshWorld_def emptyState_def deref_getOriginData makeDefaultOriginData_def)
  have b: "originA \<noteq> MSQ_SNAP_SITE_ORIGIN demoHost"
    by (simp add: originA_def demoHost_def)
  have c: "''https://msq.example'' = MSQ_SNAP_SITE_ORIGIN demoHost"
    by (simp add: demoHost_def)
  show ?thesis
    using b c
      sign_without_session [OF a, of originA demoHost
        "\<lparr>challenge = [1, 2, 3], sign_salt = None\<rparr>"]
      sign_without_session [OF a, of "''https://msq.example''" demoHost
        "\<lparr>challenge = [1, 2, 3], sign_salt = None\<rparr>"]
    by simp
qed

lemma currentSession_unlink:
  "currentSession (deref (unlink m f t) (getOriginData (unlink m f t) a))
   = currentSession (deref m (getOriginData m a))"
  by (simp add: unlink_def Let_def deref_getOriginData)

lemma assign_existing:
  assumes "currentSession (deref m (getOriginData m origin)) \<noteq> None"
  shows "fst (assignCurrentSession m (getOriginData m origin) v)
       = m\<lparr>originData := (originData m)
            (origin \<mapsto> (deref m (getOriginData m origin))\<lparr>currentSession := v\<rparr>)\<rparr>"
proof (cases "originData m origin")
  case None
  then show ?thesis
    using assms by (simp add: deref_getOriginData makeDefaultOriginData_def)
next
  case (Some d)
  then show ?thesis
    by (simp add: getOriginData_def assignCurrentSession_Stored)
qed

text \<open>
  C7: a confirmed unlink of the link from \<open>origin\<close> to \<open>withOrigin\<close> clears the current
  session of \<open>withOrigin\<close> when the derivation origin of that session is \<open>origin\<close>, and
  leaves a session with any other derivation origin in place.
\<close>

theorem unlink_cascades_logout:
  assumes "linkExists (blob w) origin (unlink_withOrigin body)"
    and "currentSession (originDataOf w (unlink_withOrigin body)) = Some session"
  shows "\<exists>w'. handleIdentityUnlinkRequest True body origin w = Inr (True, w')
           \<and> currentSession (originDataOf w' (unlink_withOrigin body))
               = (if deriviationOrigin session = origin then None else Some session)"
proof -
  let ?m = "unlink (blob w) origin (unlink_withOrigin body)"
  have s: "currentSession (deref ?m (getOriginData ?m (unlink_withOrigin body))) = Some session"
    using assms(2) by (simp add: currentSession_unlink)
  then have e: "currentSession (deref ?m (getOriginData ?m (unlink_withOrigin body))) \<noteq> None"
    by simp
  show ?thesis
    using assms(1) s assign_existing [OF e, of None]
    by (simp add: handleIdentityUnlinkRequest_def make_def Let_def case_prod_beta
          deref_getOriginData_update)
qed

lemma worldOwnSession_blob:
  "blob worldOwnSession =
     \<lparr>siteSession = None,
      originData = [originA \<mapsto>
          \<lparr>identitiesTotal = 1, linksFrom = [], linksTo = [originB], currentSession = None\<rparr>,
        originB \<mapsto>
          \<lparr>identitiesTotal = 1, linksFrom = [originA], linksTo = [],
             currentSession =
               Some \<lparr>identityId = 0, deriviationOrigin = originB, timestampMs = 1000\<rparr>\<rparr>],
      statistics = (\<lambda>_. 0)(originA := Suc (Suc 0), originB := Suc (Suc 0))\<rparr>"
  by (simp add: worldOwnSession_def freshWorld_def emptyState_def login_result
        protected_handleIdentityAdd_def link_result snap_dialog_def
        link_def linkExists_def setAdd_def
        make_def addIdentity_def incrementStats_def
        persist_def deref_getOriginData makeDefaultOriginData_def Let_def fun_upd_twist)

theorem unlink_cascades_logout_witness:
  "(\<exists>w'. handleIdentityUnlinkRequest True \<lparr>unlink_withOrigin = originB\<rparr> originA
            worldBorrowedSession = Inr (True, w')
         \<and> currentSession (originDataOf w' originB) = None)
   \<and> (\<exists>w'. handleIdentityUnlinkRequest True \<lparr>unlink_withOrigin = originB\<rparr> originA
            worldOwnSession = Inr (True, w')
         \<and> currentSession (originDataOf w' originB)
             = Some \<lparr>identityId = 0, deriviationOrigin = originB, timestampMs = 1000\<rparr>)"
proof -
  have a: "linkExists (blob worldBorrowedSession) originA originB"
    by (simp add: worldBorrowedSession_blob linkExists_def deref_getOriginData)
  have b: "currentSession (originDataOf worldBorrowedSession originB)
      = Some \<lparr>identityId = 0, deriviationOrigin = originA, timestampMs = 1000\<rparr>"
    by (simp add: worldBorrowedSession_blob deref_getOriginData)
  have c: "linkExists (blob worldOwnSession) originA originB"
    by (simp add: worldOwnSession_blob linkExists_def deref_getOriginData)
  have d: "currentSession (originDataOf worldOwnSession originB)
      = Some \<lparr>identityId = 0, deriviationOrigin = originB, timestampMs = 1000\<rparr>"
    by (simp add: worldOwnSession_blob deref_getOriginData)
  show ?thesis
    using a b c d
      unlink_cascades_logout [of worldBorrowedSession originA
        "\<lparr>unlink_withOrigin = originB\<rparr>"
        "\<lparr>identityId = 0, deriviationOrigin = originA, timestampMs = 1000\<rparr>"]
      unlink_cascades_logout [of worldOwnSession originA
        "\<lparr>unlink_withOrigin = originB\<rparr>"
        "\<lparr>identityId = 0, deriviationOrigin = originB, timestampMs = 1000\<rparr>"]
    by simp
qed

lemma linkExists_incrementStats [simp]:
  "linkExists (incrementStats m origin) f t = linkExists m f t"
  by (simp add: linkExists_def)

lemma linksTo_link:
  assumes "f \<noteq> t" and "\<not> linkExists m f t"
  shows "linksTo (deref (link m f t) (getOriginData (link m f t) f))
       = linksTo (deref m (getOriginData m f)) @ [t]"
  using assms
  by (simp add: link_def linkExists_def Let_def deref_getOriginData setAdd_def)

lemma count_list_distinct:
  "distinct xs \<Longrightarrow> x \<in> set xs \<Longrightarrow> count_list xs x = 1"
  by (induction xs) (auto simp: count_list_0_iff)

lemma count_list_snoc_new:
  "x \<notin> set xs \<Longrightarrow> count_list (xs @ [x]) x = 1"
  by (simp add: count_list_0_iff)

text \<open>
  C8: when the edge from \<open>origin\<close> to \<open>withOrigin\<close> exists, the link handler returns
  \<open>true\<close> and leaves the world as it was (no dialog, no write); when it is absent, the
  unlink handler does the same. Hence a second link request after a successful one
  returns \<open>true\<close> and changes nothing, and the edge is in \<open>linksTo(origin)\<close> once.
\<close>

theorem link_unlink_idempotent:
  "(origin \<noteq> link_withOrigin lbody \<and> linkExists (blob w) origin (link_withOrigin lbody)
      \<longrightarrow> handleIdentityLinkRequest agreed lbody origin w = Inr (True, w))
   \<and> (\<not> linkExists (blob w) origin (unlink_withOrigin ubody)
      \<longrightarrow> handleIdentityUnlinkRequest agreed ubody origin w = Inr (True, w))
   \<and> (handleIdentityLinkRequest agreed lbody origin w = Inr (True, w')
      \<longrightarrow> handleIdentityLinkRequest agreed' lbody origin w' = Inr (True, w')
        \<and> linkExists (blob w') origin (link_withOrigin lbody)
        \<and> (distinct (linksTo (originDataOf w origin))
            \<longrightarrow> count_list (linksTo (originDataOf w' origin)) (link_withOrigin lbody) = 1))"
proof (intro conjI impI)
  assume "origin \<noteq> link_withOrigin lbody
      \<and> linkExists (blob w) origin (link_withOrigin lbody)"
  then show "handleIdentityLinkRequest agreed lbody origin w = Inr (True, w)"
    by (simp add: link_result)
next
  assume "\<not> linkExists (blob w) origin (unlink_withOrigin ubody)"
  then show "handleIdentityUnlinkRequest agreed ubody origin w = Inr (True, w)"
    by (simp add: handleIdentityUnlinkRequest_def make_def)
next
  assume r: "handleIdentityLinkRequest agreed lbody origin w = Inr (True, w')"
  then have ne: "origin \<noteq> link_withOrigin lbody"
    by (auto simp: link_result split: if_splits)
  show e: "linkExists (blob w') origin (link_withOrigin lbody)"
  proof (cases "linkExists (blob w) origin (link_withOrigin lbody)")
    case True
    then show ?thesis using r ne by (simp add: link_result)
  next
    case False
    then have "w' = persist (incrementStats (link (blob w) origin (link_withOrigin lbody))
        origin) (snap_dialog w)"
      using r ne by (auto simp: link_result split: if_splits)
    then show ?thesis
      using linksTo_link [OF ne False] by (simp add: linkExists_def)
  qed
  then show "handleIdentityLinkRequest agreed' lbody origin w' = Inr (True, w')"
    using ne by (simp add: link_result)
  assume d: "distinct (linksTo (originDataOf w origin))"
  show "count_list (linksTo (originDataOf w' origin)) (link_withOrigin lbody) = 1"
  proof (cases "linkExists (blob w) origin (link_withOrigin lbody)")
    case True
    then have "w' = w" using r ne by (simp add: link_result)
    then show ?thesis
      using d True by (simp add: count_list_distinct linkExists_def)
  next
    case False
    then have "w' = persist (incrementStats (link (blob w) origin (link_withOrigin lbody))
        origin) (snap_dialog w)"
      using r ne by (auto simp: link_result split: if_splits)
    then show ?thesis
      using linksTo_link [OF ne False] False
      by (simp add: count_list_snoc_new linkExists_def)
  qed
qed


theorem link_unlink_idempotent_witness:
  "handleIdentityLinkRequest False \<lparr>link_withOrigin = originB\<rparr> originA worldLinkedNoMask
     = Inr (True, worldLinkedNoMask)
   \<and> handleIdentityUnlinkRequest True \<lparr>unlink_withOrigin = originB\<rparr> originA worldOneMask
     = Inr (True, worldOneMask)
   \<and> handleIdentityLinkRequest False \<lparr>link_withOrigin = originB\<rparr> originA
       (after worldOneMask
          (handleIdentityLinkRequest True \<lparr>link_withOrigin = originB\<rparr> originA worldOneMask))
     = Inr (True,
         after worldOneMask
          (handleIdentityLinkRequest True \<lparr>link_withOrigin = originB\<rparr> originA worldOneMask))
   \<and> count_list
        (linksTo (originDataOf
          (after worldOneMask
            (handleIdentityLinkRequest True \<lparr>link_withOrigin = originB\<rparr> originA worldOneMask))
          originA))
        originB = 1"
proof -
  let ?after1 = "after worldOneMask
    (handleIdentityLinkRequest True \<lparr>link_withOrigin = originB\<rparr> originA worldOneMask)"
  have a: "linkExists (blob worldLinkedNoMask) originA originB"
    by (simp add: worldLinkedNoMask_blob linkExists_def deref_getOriginData)
  have b: "\<not> linkExists (blob worldOneMask) originA originB"
    by (simp add: worldOneMask_blob linkExists_def deref_getOriginData)
  have c: "handleIdentityLinkRequest True \<lparr>link_withOrigin = originB\<rparr> originA worldOneMask
      = Inr (True, ?after1)"
    using b by (simp add: link_result)
  have d: "distinct (linksTo (originDataOf worldOneMask originA))"
    by (simp add: worldOneMask_blob deref_getOriginData)
  show ?thesis
    using a b c d
      link_unlink_idempotent [where origin = originA
        and lbody = "\<lparr>link_withOrigin = originB\<rparr>" and w = worldLinkedNoMask
        and ubody = "\<lparr>unlink_withOrigin = originA\<rparr>" and agreed = False
        and w' = ?after1 and agreed' = False]
      link_unlink_idempotent [where origin = originA
        and lbody = "\<lparr>link_withOrigin = originB\<rparr>" and w = worldOneMask
        and ubody = "\<lparr>unlink_withOrigin = originB\<rparr>" and agreed = True
        and w' = ?after1 and agreed' = False]
    by simp
qed

lemma optionsLoop_eq:
  "optionsLoop h origin total' i options =
     options @ map (\<lambda>k. getPrincipalText h (getSignIdentity h origin k None)) [i..<total']"
proof (induction h origin total' i options rule: optionsLoop.induct)
  case (1 h origin total' i options)
  show ?case
  proof (cases "i < total'")
    case True
    then show ?thesis
      using "1" by (subst optionsLoop.simps) (simp add: upt_conv_Cons Let_def)
  next
    case False
    then show ?thesis
      by (subst optionsLoop.simps) simp
  qed
qed

lemma linkedLoop_eq:
  "linkedLoop h manager origins result =
     result @ map (\<lambda>origin. (origin,
        map (\<lambda>k. getPrincipalText h (getSignIdentity h origin k None))
          [0..<identitiesTotal (deref manager (getOriginData manager origin))])) origins"
  by (induction origins arbitrary: result) (simp_all add: optionsLoop_eq Let_def)

lemma run_three:
  "a \<noteq> b \<Longrightarrow>
   blob (run h
      [IdentityAdd \<lparr>add_toOrigin = a\<rparr>, IdentityAdd \<lparr>add_toOrigin = a\<rparr>,
       IdentityLink True \<lparr>link_withOrigin = b\<rparr> a] freshWorld) =
     \<lparr>siteSession = None,
      originData = [a \<mapsto>
          \<lparr>identitiesTotal = Suc (Suc 0), linksFrom = [], linksTo = [b],
            currentSession = None\<rparr>,
        b \<mapsto>
          \<lparr>identitiesTotal = 0, linksFrom = [a], linksTo = [], currentSession = None\<rparr>],
      statistics = (\<lambda>_. 0)(a := Suc (Suc (Suc 0)))\<rparr>"
  by (simp add: freshWorld_def emptyState_def
        protected_handleIdentityAdd_def link_result snap_dialog_def
        link_def linkExists_def setAdd_def
        make_def addIdentity_def incrementStats_def
        persist_def deref_getOriginData makeDefaultOriginData_def Let_def)

text \<open>
  C9, amended: the login options of an origin are one group for the origin itself
  followed by one group for each origin of its \<open>linksFrom\<close>, in the stored order; the
  group of a source origin holds, for each index below that origin's \<open>identitiesTotal\<close> in
  increasing order, the principal (as text) of the key pair derived for (source origin,
  index), not its public key. After two identities
  are created on \<open>a\<close> and the link from \<open>a\<close> to \<open>b\<close> is confirmed, starting from the empty
  state, the options of \<open>b\<close> are the empty group of \<open>b\<close> and then the group of \<open>a\<close> with
  two entries.
\<close>

theorem login_options_groups:
  "protected_handleIdentityGetLoginOptions h body w =
     Inr ((forOrigin body,
           map (\<lambda>k. getPrincipalText h (getSignIdentity h (forOrigin body) k None))
             [0..<identitiesTotal (originDataOf w (forOrigin body))])
          # map (\<lambda>origin. (origin,
                 map (\<lambda>k. getPrincipalText h (getSignIdentity h origin k None))
                   [0..<identitiesTotal (originDataOf w origin)]))
              (linksFrom (originDataOf w (forOrigin body))),
          persist (incrementStats (blob w) (forOrigin body)) w)
   \<and> (a \<noteq> b \<longrightarrow>
       (\<exists>w'. protected_handleIdentityGetLoginOptions h \<lparr>forOrigin = b\<rparr>
           (run h
              [IdentityAdd \<lparr>add_toOrigin = a\<rparr>, IdentityAdd \<lparr>add_toOrigin = a\<rparr>,
               IdentityLink True \<lparr>link_withOrigin = b\<rparr> a] freshWorld)
         = Inr ([(b, []),
                 (a, [getPrincipalText h (getSignIdentity h a 0 None),
                      getPrincipalText h (getSignIdentity h a 1 None)])], w')))"
proof (intro conjI impI)
  show g: "protected_handleIdentityGetLoginOptions h body w =
     Inr ((forOrigin body,
           map (\<lambda>k. getPrincipalText h (getSignIdentity h (forOrigin body) k None))
             [0..<identitiesTotal (originDataOf w (forOrigin body))])
          # map (\<lambda>origin. (origin,
                 map (\<lambda>k. getPrincipalText h (getSignIdentity h origin k None))
                   [0..<identitiesTotal (originDataOf w origin)]))
              (linksFrom (originDataOf w (forOrigin body))),
          persist (incrementStats (blob w) (forOrigin body)) w)" for body w
    by (simp add: protected_handleIdentityGetLoginOptions_def make_def Let_def
          optionsLoop_eq linkedLoop_eq)
  assume ne: "a \<noteq> b"
  have u: "[0..<Suc (Suc 0)] = [0, Suc 0]"
    by (simp add: upt_conv_Cons)
  show "\<exists>w'. protected_handleIdentityGetLoginOptions h \<lparr>forOrigin = b\<rparr>
           (run h
              [IdentityAdd \<lparr>add_toOrigin = a\<rparr>, IdentityAdd \<lparr>add_toOrigin = a\<rparr>,
               IdentityLink True \<lparr>link_withOrigin = b\<rparr> a] freshWorld)
         = Inr ([(b, []),
                 (a, [getPrincipalText h (getSignIdentity h a 0 None),
                      getPrincipalText h (getSignIdentity h a 1 None)])], w')"
    using ne by (simp add: g run_three [OF ne] deref_getOriginData u del: run.simps)
qed

theorem login_options_groups_witness:
  "\<exists>w'. protected_handleIdentityGetLoginOptions demoHost \<lparr>forOrigin = originB\<rparr>
           (run demoHost
              [IdentityAdd \<lparr>add_toOrigin = originA\<rparr>, IdentityAdd \<lparr>add_toOrigin = originA\<rparr>,
               IdentityLink True \<lparr>link_withOrigin = originB\<rparr> originA] freshWorld)
         = Inr ([(originB, []),
                 (originA, [getPrincipalText demoHost (getSignIdentity demoHost originA 0 None),
                      getPrincipalText demoHost (getSignIdentity demoHost originA 1 None)])],
                w')"
  by (rule login_options_groups [where h = demoHost and a = originA and b = originB
        and body = "\<lparr>forOrigin = originB\<rparr>" and w = freshWorld,
        THEN conjunct2, rule_format]) simp


section \<open>Key derivation\<close>





lemma entropySalt_referenceLabel:
  "entropySalt h origin i purpose = referenceLabel (numberToString h) origin i purpose"
  by (simp add: entropySalt_def referenceLabel_def namespaceTag_def)

lemma getEntropy_entropyPreBytes:
  "getEntropy h origin i purpose salt = sha256 h (entropyPreBytes h origin i purpose salt)"
  by (simp add: getEntropy_def entropyPreBytes_def entropySource_def Let_def
        split: option.splits)



text \<open>
  C4: the key pair that \<open>getSignIdentity\<close> derives is the one of the reference algorithm:
  the label is the namespace tag followed by the origin, the identity index and the
  purpose label; the entropy is requested for exactly that label; the custom salt, when
  present, is appended to the entropy bytes; the SHA-256 digest of the result is the
  private key of the secp256k1 key pair, 32 bytes long as every SHA-256 digest is.
\<close>

theorem key_derivation_follows_reference:
  "getSignIdentity h origin i salt
     = referenceDerive (numberToString h) (entropySource h) (sha256 h) origin i
         identitySignSalt salt
   \<and> fromSecretKey (getEntropy h origin i purpose salt)
     = referenceDerive (numberToString h) (entropySource h) (sha256 h) origin i purpose salt
   \<and> entropySalt h origin i purpose = referenceLabel (numberToString h) origin i purpose
   \<and> ((\<forall>bs. length (sha256 h bs) = 32)
       \<longrightarrow> length (secretKey (getSignIdentity h origin i salt)) = 32)"
  by (simp add: getSignIdentity_def referenceDerive_def getEntropy_def entropySource_def
        entropySalt_referenceLabel Let_def split: option.splits)

theorem key_derivation_follows_reference_witness:
  "(\<forall>bs. length (sha256 demoHost bs) = 32)
   \<and> length (secretKey (getSignIdentity demoHost originA 0 (Some [1, 2]))) = 32
   \<and> getSignIdentity demoHost originA 0 (Some [1, 2])
     = referenceDerive (numberToString demoHost) (entropySource demoHost) (sha256 demoHost)
         originA 0 identitySignSalt (Some [1, 2])"
proof -
  have a: "\<forall>bs. length (sha256 demoHost bs) = 32"
    by (auto simp: demoHost_def)
  show ?thesis
    using a key_derivation_follows_reference [of demoHost originA 0 "Some [1, 2]"
        identitySignSalt]
    by auto
qed


lemma unat_byte_of_char: "unat (of_nat (of_char x) :: byte) = of_char x"
  by (simp add: unat_of_nat)



lemma demoHost_entropyPreBytes:
  "entropyPreBytes demoHost origin i purpose None =
     map (\<lambda>c. of_nat (of_char c)) (entropySalt demoHost origin i purpose)"
  by (simp add: entropyPreBytes_def entropySource_def demoHost_def)

lemma demoHost_sha256: "sha256 demoHost bs = take 32 (bs @ replicate 32 0)"
  by (simp add: demoHost_def)

lemma demoHost_publicKeyRaw: "publicKeyRaw demoHost bs = rev bs"
  by (simp add: demoHost_def)

lemma entropySalt_originA_prefix:
  "take 32 (entropySalt h originA i purpose)
     = [CHR 0x0A] @ ''masquerade-snap'' @ [CHR 0x0A] @ ''https://a.examp''"
  by (simp add: entropySalt_def newline_def originA_def)

lemma entropySalt_originB_prefix:
  "take 32 (entropySalt h originB i purpose)
     = [CHR 0x0A] @ ''masquerade-snap'' @ [CHR 0x0A] @ ''https://b.examp''"
  by (simp add: entropySalt_def newline_def originB_def)

lemma entropySalt_long: "32 \<le> length (entropySalt h originA i purpose)"
  by (simp add: entropySalt_def newline_def originA_def)

lemma demoHost_getEntropy_originA:
  "getEntropy demoHost originA i purpose None
     = map (\<lambda>c. of_nat (of_char c))
         ([CHR 0x0A] @ ''masquerade-snap'' @ [CHR 0x0A] @ ''https://a.examp'')"
  using entropySalt_long [of demoHost i purpose]
  by (simp add: getEntropy_entropyPreBytes demoHost_entropyPreBytes demoHost_sha256
        take_map entropySalt_originA_prefix)

text \<open>A digest of 32 bytes cannot tell all origins apart: whatever the hash, two origins
  get the same private key.\<close>

lemma digest_collisions_exist:
  assumes "\<forall>bs. length (sha256 h bs) = 32"
  shows "\<exists>origin1 origin2. origin1 \<noteq> origin2
           \<and> getEntropy h origin1 i purpose salt = getEntropy h origin2 i purpose salt"
proof (rule ccontr)
  assume "\<not> ?thesis"
  then have i: "inj (\<lambda>origin. getEntropy h origin i purpose salt)"
    by (auto simp: inj_def)
  have "range (\<lambda>origin. getEntropy h origin i purpose salt) \<subseteq> {bs. length bs = 32}"
    using assms by (auto simp: getEntropy_entropyPreBytes)
  moreover have "finite {bs :: byte list. length bs = 32}"
    using finite_lists_length_eq [of "UNIV :: byte set" 32] by simp
  ultimately have "finite (range (\<lambda>origin. getEntropy h origin i purpose salt))"
    by (rule finite_subset)
  then have "finite (UNIV :: string set)"
    using i by (rule finite_imageD)
  then show False
    using infinite_UNIV_listI by blast
qed


lemma sessionOrImplicit_incrementStats [simp]:
  "sessionOrImplicit h (incrementStats m origin) a = sessionOrImplicit h m a"
  by (simp add: sessionOrImplicit_def)

lemma getPublicKey_result:
  "handleIdentityGetPublicKey h body origin w =
     (case sessionOrImplicit h (blob w) origin of
        Inl e \<Rightarrow> Inl e
      | Inr session \<Rightarrow>
          Inr (getPublicKeyRaw h
                 (getSignIdentity h (deriviationOrigin session) (identityId session)
                    (pk_salt body)),
               persist (incrementStats (blob w) origin) w))"
  by (simp add: handleIdentityGetPublicKey_def make_def Let_def split: sum.splits)



lemma getPublicKey_borrowed:
  "handleIdentityGetPublicKey demoHost \<lparr>pk_salt = None\<rparr> originB worldBorrowedSession
     = Inr (getPublicKeyRaw demoHost (getSignIdentity demoHost originA 0 None),
            persist (incrementStats (blob worldBorrowedSession) originB) worldBorrowedSession)"
  by (simp add: getPublicKey_result sessionOrImplicit_def worldBorrowedSession_blob
        deref_getOriginData)


lemma textOfBytes_of_text: "textOfBytes (map (\<lambda>c. of_nat (of_char c)) cs) = cs"
  by (simp add: textOfBytes_def unat_byte_of_char comp_def)

lemma textOfBytes_rev: "textOfBytes (rev bs) = rev (textOfBytes bs)"
  by (simp add: textOfBytes_def rev_map)

lemma demoHost_principal_originA:
  "getPrincipalText demoHost (getSignIdentity demoHost originA 0 None)
     = [CHR 0x0A] @ ''masquerade-snap'' @ [CHR 0x0A] @ ''https://a.examp''"
proof -
  have "principalText demoHost = textOfBytes"
    by (simp add: demoHost_def)
  then show ?thesis
    by (simp only: getPrincipalText_def getSignIdentity_def Let_def secretKey.simps
          demoHost_getEntropy_originA textOfBytes_of_text)
qed

lemma demoHost_publicKey_text_originA:
  "textOfBytes (getPublicKeyRaw demoHost (getSignIdentity demoHost originA 0 None))
     = rev ([CHR 0x0A] @ ''masquerade-snap'' @ [CHR 0x0A] @ ''https://a.examp'')"
  by (simp only: getPublicKeyRaw_def getSignIdentity_def Let_def secretKey.simps
        demoHost_getEntropy_originA demoHost_publicKeyRaw textOfBytes_rev
        textOfBytes_of_text)

text \<open>
  C9, as stated, fails: with a session on \<open>b.example\<close> that wears the first mask of
  \<open>a.example\<close>, the public-key handler returns the raw public key of that mask, while the
  login options of \<open>b.example\<close> list for the same mask its principal, a different value.
\<close>

theorem login_options_not_public_keys_counterexample:
  "protected_handleIdentityGetLoginOptions demoHost \<lparr>forOrigin = originB\<rparr>
       worldBorrowedSession
     = Inr ([(originB, [getPrincipalText demoHost (getSignIdentity demoHost originB 0 None)]),
             (originA, [getPrincipalText demoHost (getSignIdentity demoHost originA 0 None)])],
            persist (incrementStats (blob worldBorrowedSession) originB) worldBorrowedSession)
   \<and> handleIdentityGetPublicKey demoHost \<lparr>pk_salt = None\<rparr> originB worldBorrowedSession
     = Inr (getPublicKeyRaw demoHost (getSignIdentity demoHost originA 0 None),
            persist (incrementStats (blob worldBorrowedSession) originB) worldBorrowedSession)
   \<and> getPrincipalText demoHost (getSignIdentity demoHost originA 0 None)
     \<noteq> textOfBytes (getPublicKeyRaw demoHost (getSignIdentity demoHost originA 0 None))"
proof (intro conjI)
  show "protected_handleIdentityGetLoginOptions demoHost \<lparr>forOrigin = originB\<rparr>
       worldBorrowedSession
     = Inr ([(originB, [getPrincipalText demoHost (getSignIdentity demoHost originB 0 None)]),
             (originA, [getPrincipalText demoHost (getSignIdentity demoHost originA 0 None)])],
            persist (incrementStats (blob worldBorrowedSession) originB) worldBorrowedSession)"
    by (simp add: protected_handleIdentityGetLoginOptions_def make_def Let_def
          optionsLoop_eq linkedLoop_eq worldBorrowedSession_blob deref_getOriginData)
  show "handleIdentityGetPublicKey demoHost \<lparr>pk_salt = None\<rparr> originB worldBorrowedSession
     = Inr (getPublicKeyRaw demoHost (getSignIdentity demoHost originA 0 None),
            persist (incrementStats (blob worldBorrowedSession) originB) worldBorrowedSession)"
    by (rule getPublicKey_borrowed)
  show "getPrincipalText demoHost (getSignIdentity demoHost originA 0 None)
     \<noteq> textOfBytes (getPublicKeyRaw demoHost (getSignIdentity demoHost originA 0 None))"
    by (simp add: demoHost_principal_originA demoHost_publicKey_text_originA)
qed

end
